theory Spec2Isabelle
  imports
    Complex_Main
    "HOL-Library.Char_ord"
    "HOL-Library.List_Lexorder"
    "HOL-Library.Product_Lexorder"
begin

section \<open>The call-centre dashboard: data model\<close>

text \<open>
  The program is one Python module, \<^verbatim>\<open>app.py\<close>. It loads a spreadsheet into a pandas
  data frame, derives a \<^verbatim>\<open>Sentiment\<close> column, drops unusable rows, and serves a Dash
  page whose two callbacks filter and aggregate the frame (\<^verbatim>\<open>update_graphs\<close>) and
  keep a log of saved filters in an SQLite table (\<^verbatim>\<open>handle_past_data\<close>).

  A data frame is modelled as the list of its rows, in frame order. A cell of the
  \<^verbatim>\<open>Satisfaction rating\<close> column is an integer, or pandas' missing value \<^verbatim>\<open>NaN\<close>
  (an empty spreadsheet cell): every ordering or equality test against \<^verbatim>\<open>NaN\<close> is
  false in Python.
\<close>

datatype rating = Num int | NaN

fun rating_ge :: "rating \<Rightarrow> int \<Rightarrow> bool" where
  "rating_ge (Num n) k = (n \<ge> k)"
| "rating_ge NaN k = False"

fun rating_eq :: "rating \<Rightarrow> int \<Rightarrow> bool" where
  "rating_eq (Num n) k = (n = k)"
| "rating_eq NaN k = False"

text \<open>
  \<^verbatim>\<open>
  def classify_sentiment(rating):
      if rating >= 4:
          return "Positive"
      elif rating == 3:
          return "Neutral"
      else:
          return "Negative"
  \<close>
\<close>

definition classify_sentiment :: "rating \<Rightarrow> string" where
  "classify_sentiment rating =
     (if rating_ge rating 4 then ''Positive''
      else if rating_eq rating 3 then ''Neutral''
      else ''Negative'')"

subsection \<open>Normalization (module level, lines 27 to 30)\<close>

text \<open>
  A time stamp is pandas' \<^verbatim>\<open>datetime64[ns]\<close>, a count of nanoseconds; a duration is
  the number of seconds \<^verbatim>\<open>total_seconds()\<close> returns. The two parsers
  \<^verbatim>\<open>pd.to_datetime(..., errors="coerce")\<close> and
  \<^verbatim>\<open>pd.to_timedelta(..., errors="coerce").dt.total_seconds()\<close> belong to pandas; they
  are parameters of the model, returning \<open>None\<close> where pandas yields its missing value
  (\<^verbatim>\<open>NaT\<close>, \<^verbatim>\<open>NaN\<close>).
\<close>

type_synonym timestamp = int

record raw_row =
  raw_rating :: rating
  raw_date :: string
  raw_resolved :: "string option"
  raw_duration :: string

text \<open>The frame after lines 27 to 29: every column that \<^verbatim>\<open>dropna\<close> inspects may be missing.\<close>

record coerced_row =
  c_rating :: rating
  c_sentiment :: "string option"
  c_date :: "timestamp option"
  c_resolved :: "string option"
  c_duration :: "real option"

text \<open>A row of the normalized frame \<^verbatim>\<open>df\<close>.\<close>

record call_record =
  satisfaction_rating :: rating
  date :: timestamp
  resolved :: string
  avg_talk_duration :: real
  sentiment :: string

definition coerce_row ::
  "(string \<Rightarrow> timestamp option) \<Rightarrow> (string \<Rightarrow> real option) \<Rightarrow> raw_row \<Rightarrow> coerced_row" where
  "coerce_row to_datetime to_timedelta row =
     \<lparr>c_rating = raw_rating row,
      c_sentiment = Some (classify_sentiment (raw_rating row)),
      c_date = to_datetime (raw_date row),
      c_resolved = raw_resolved row,
      c_duration = to_timedelta (raw_duration row)\<rparr>"

text \<open>
  \<^verbatim>\<open>df.dropna(subset=["Date", "AvgTalkDuration", "Sentiment", "Resolved"], inplace=True)\<close>:
  a row stays when none of the four named cells is missing.
\<close>

definition dropna_row :: "coerced_row \<Rightarrow> call_record option" where
  "dropna_row row =
     (case (c_date row, c_duration row, c_sentiment row, c_resolved row) of
        (Some d, Some t, Some s, Some y) \<Rightarrow>
          Some \<lparr>satisfaction_rating = c_rating row, date = d, resolved = y,
                avg_talk_duration = t, sentiment = s\<rparr>
      | _ \<Rightarrow> None)"

definition normalize_row ::
  "(string \<Rightarrow> timestamp option) \<Rightarrow> (string \<Rightarrow> real option) \<Rightarrow> raw_row \<Rightarrow> call_record option" where
  "normalize_row to_datetime to_timedelta row =
     dropna_row (coerce_row to_datetime to_timedelta row)"

definition normalize ::
  "(string \<Rightarrow> timestamp option) \<Rightarrow> (string \<Rightarrow> real option) \<Rightarrow> raw_row list \<Rightarrow> call_record list" where
  "normalize to_datetime to_timedelta rows =
     List.map_filter (normalize_row to_datetime to_timedelta) rows"

text \<open>
  A spreadsheet cell of the rating column may also hold text. Python refuses to order a
  string against an integer: on such a cell the first test of \<^verbatim>\<open>classify_sentiment\<close>,
  \<^verbatim>\<open>rating >= 4\<close>, raises \<^verbatim>\<open>TypeError\<close>. Nothing catches it, so it leaves
  \<^verbatim>\<open>df["Satisfaction rating"].apply(classify_sentiment)\<close> on line 27 and the module
  with it: no frame is built.
\<close>

datatype rating_cell = Numeric rating | Text string

datatype error = TypeError

definition classify_cell :: "rating_cell \<Rightarrow> error + string" where
  "classify_cell cell =
     (case cell of
        Numeric r \<Rightarrow> Inr (classify_sentiment r)
      | Text s \<Rightarrow> Inl TypeError)"

fun apply_classify :: "rating_cell list \<Rightarrow> error + string list" where
  "apply_classify [] = Inr []"
| "apply_classify (cell # cells) =
     (case classify_cell cell of
        Inl e \<Rightarrow> Inl e
      | Inr s \<Rightarrow> (case apply_classify cells of Inl e \<Rightarrow> Inl e | Inr ss \<Rightarrow> Inr (s # ss)))"

section \<open>The filter of \<^verbatim>\<open>update_graphs\<close> (lines 151 to 165)\<close>

text \<open>
  The arguments of the callback. \<^verbatim>\<open>selected_sentiments\<close> is \<^verbatim>\<open>None\<close> or a list of
  labels (a multi-select drop-down); \<^verbatim>\<open>resolved_status\<close> is \<^verbatim>\<open>None\<close> or a string;
  the two dates are compared by pandas as time stamps; \<^verbatim>\<open>duration_range\<close> is the pair
  of slider values, read as \<^verbatim>\<open>duration_range[0]\<close> and \<^verbatim>\<open>duration_range[1]\<close>.
\<close>

record criteria =
  selected_sentiments :: "string list option"
  start_date :: timestamp
  end_date :: timestamp
  resolved_status :: "string option"
  duration_range :: "real \<times> real"

text \<open>
  \<^verbatim>\<open>
  filtered_df = df.copy()
  if selected_sentiments:
      filtered_df = filtered_df[filtered_df["Sentiment"].isin(selected_sentiments)]
  filtered_df = filtered_df[(filtered_df["Date"] >= start_date) & (filtered_df["Date"] <= end_date)]
  if resolved_status:
      filtered_df = filtered_df[filtered_df["Resolved"] == resolved_status]
  filtered_df = filtered_df[
      (filtered_df["AvgTalkDuration"] >= duration_range[0]) &
      (filtered_df["AvgTalkDuration"] <= duration_range[1])
  ]
  \<close>
  Python's \<^verbatim>\<open>if v:\<close> takes the branch for a non-empty list or string only: \<^verbatim>\<open>None\<close>,
  \<^verbatim>\<open>[]\<close> and \<^verbatim>\<open>""\<close> are falsy.
\<close>

definition sentiment_step :: "string list option \<Rightarrow> call_record list \<Rightarrow> call_record list" where
  "sentiment_step sel filtered_df =
     (case sel of
        Some (s # ss) \<Rightarrow> filter (\<lambda>r. sentiment r \<in> set (s # ss)) filtered_df
      | _ \<Rightarrow> filtered_df)"

definition date_step :: "timestamp \<Rightarrow> timestamp \<Rightarrow> call_record list \<Rightarrow> call_record list" where
  "date_step start end filtered_df =
     filter (\<lambda>r. date r \<ge> start \<and> date r \<le> end) filtered_df"

definition resolved_step :: "string option \<Rightarrow> call_record list \<Rightarrow> call_record list" where
  "resolved_step status filtered_df =
     (case status of
        Some (c # cs) \<Rightarrow> filter (\<lambda>r. resolved r = c # cs) filtered_df
      | _ \<Rightarrow> filtered_df)"

definition duration_step :: "real \<times> real \<Rightarrow> call_record list \<Rightarrow> call_record list" where
  "duration_step rng filtered_df =
     filter (\<lambda>r. avg_talk_duration r \<ge> fst rng \<and> avg_talk_duration r \<le> snd rng) filtered_df"

definition filter_records :: "criteria \<Rightarrow> call_record list \<Rightarrow> call_record list" where
  "filter_records c df =
     duration_step (duration_range c)
       (resolved_step (resolved_status c)
         (date_step (start_date c) (end_date c)
           (sentiment_step (selected_sentiments c) df)))"

text \<open>
  The clauses of the filter as the specification words them: a clause whose criteria
  field is absent or empty is skipped, that is, true of every record.
\<close>

definition sentiment_clause :: "criteria \<Rightarrow> call_record \<Rightarrow> bool" where
  "sentiment_clause c r =
     (case selected_sentiments c of
        None \<Rightarrow> True
      | Some sel \<Rightarrow> (if sel = [] then True else sentiment r \<in> set sel))"

definition date_clause :: "criteria \<Rightarrow> call_record \<Rightarrow> bool" where
  "date_clause c r = (start_date c \<le> date r \<and> date r \<le> end_date c)"

definition resolved_clause :: "criteria \<Rightarrow> call_record \<Rightarrow> bool" where
  "resolved_clause c r =
     (case resolved_status c of
        None \<Rightarrow> True
      | Some y \<Rightarrow> (if y = [] then True else resolved r = y))"

definition duration_clause :: "criteria \<Rightarrow> call_record \<Rightarrow> bool" where
  "duration_clause c r =
     (fst (duration_range c) \<le> avg_talk_duration r
      \<and> avg_talk_duration r \<le> snd (duration_range c))"

text \<open>The same pipeline with the sentiment clause removed entirely.\<close>

definition filter_without_sentiment :: "criteria \<Rightarrow> call_record list \<Rightarrow> call_record list" where
  "filter_without_sentiment c df =
     duration_step (duration_range c)
       (resolved_step (resolved_status c)
         (date_step (start_date c) (end_date c) df))"

section \<open>The five aggregations of \<^verbatim>\<open>update_graphs\<close> (lines 167 to 217)\<close>

text \<open>
  pandas' \<^verbatim>\<open>groupby(key).size()\<close>: one entry for each key value that occurs, in
  ascending key order, with the number of rows that carry it.
\<close>

definition groupby_size :: "('a \<Rightarrow> 'k::linorder) \<Rightarrow> 'a list \<Rightarrow> ('k \<times> nat) list" where
  "groupby_size key rows =
     map (\<lambda>k. (k, length (filter (\<lambda>r. key r = k) rows))) (sort (remdups (map key rows)))"

text \<open>
  \<^verbatim>\<open>px.pie(filtered_df, names="Sentiment", ...)\<close>: one slice for each label of the
  column, sized by the number of rows with that label.
\<close>

definition pie_fig :: "call_record list \<Rightarrow> (string \<times> nat) list" where
  "pie_fig filtered_df =
     map (\<lambda>s. (s, length (filter (\<lambda>r. sentiment r = s) filtered_df)))
       (remdups (map sentiment filtered_df))"

text \<open>
  \<^verbatim>\<open>
  sentiment_trend = (
      filtered_df.groupby(filtered_df["Date"].dt.strftime("%Y-%m"))["Sentiment"]
      .value_counts().unstack().fillna(0))
  \<close>
  A table with one line for each month that occurs and one column for each sentiment
  that occurs anywhere in the subset; a cell holds the count of that month and sentiment,
  0 where \<^verbatim>\<open>unstack\<close> left it missing. The month label of a time stamp comes from
  \<^verbatim>\<open>strftime\<close>, a parameter.
\<close>

definition sentiment_trend ::
  "(timestamp \<Rightarrow> string) \<Rightarrow> call_record list \<Rightarrow> (string \<times> (string \<times> nat) list) list" where
  "sentiment_trend strftime filtered_df =
     map (\<lambda>m. (m, map (\<lambda>s. (s, length (filter (\<lambda>r. strftime (date r) = m \<and> sentiment r = s)
                                              filtered_df)))
                    (sort (remdups (map sentiment filtered_df)))))
       (sort (remdups (map (\<lambda>r. strftime (date r)) filtered_df)))"

text \<open>
  \<^verbatim>\<open>filtered_df.groupby(["Resolved", "Sentiment"]).size().reset_index(name="Count")\<close>
\<close>

definition resolution_counts :: "call_record list \<Rightarrow> ((string \<times> string) \<times> nat) list" where
  "resolution_counts filtered_df = groupby_size (\<lambda>r. (resolved r, sentiment r)) filtered_df"

text \<open>
  \<^verbatim>\<open>px.box(filtered_df, x="Sentiment", y="AvgTalkDuration", color="Sentiment", ...)\<close>:
  one box for each sentiment that occurs, in the order in which the sentiments first
  appear in the frame, over the durations of its rows in frame order. \<open>unique\<close> lists
  the distinct values of a column in order of first appearance.
\<close>

definition unique :: "'a list \<Rightarrow> 'a list" where
  "unique xs = rev (remdups (rev xs))"

definition duration_fig :: "call_record list \<Rightarrow> (string \<times> real list) list" where
  "duration_fig filtered_df =
     map (\<lambda>s. (s, map avg_talk_duration (filter (\<lambda>r. sentiment r = s) filtered_df)))
       (unique (map sentiment filtered_df))"

text \<open>
  \<^verbatim>\<open>
  churn_df = (
      filtered_df[filtered_df["Sentiment"] == "Negative"]
      .groupby("Resolved").size().reset_index(name="Count"))
  \<close>
\<close>

definition churn_df :: "call_record list \<Rightarrow> (string \<times> nat) list" where
  "churn_df filtered_df =
     groupby_size resolved (filter (\<lambda>r. sentiment r = ''Negative'') filtered_df)"

record figures =
  sentiment_pie :: "(string \<times> nat) list"
  trend_fig :: "(string \<times> (string \<times> nat) list) list"
  resolution_bar :: "((string \<times> string) \<times> nat) list"
  duration_box :: "(string \<times> real list) list"
  churn_indicator :: "(string \<times> nat) list"

definition update_graphs ::
  "(timestamp \<Rightarrow> string) \<Rightarrow> call_record list \<Rightarrow> criteria \<Rightarrow> figures" where
  "update_graphs strftime df c =
     (let filtered_df = filter_records c df in
      \<lparr>sentiment_pie = pie_fig filtered_df,
       trend_fig = sentiment_trend strftime filtered_df,
       resolution_bar = resolution_counts filtered_df,
       duration_box = duration_fig filtered_df,
       churn_indicator = churn_df filtered_df\<rparr>)"

section \<open>The saved-filter log of \<^verbatim>\<open>handle_past_data\<close> (lines 38 to 50, 231 to 248)\<close>

text \<open>
  \<^verbatim>\<open>
  CREATE TABLE IF NOT EXISTS past_filters (
      id INTEGER PRIMARY KEY AUTOINCREMENT,
      sentiment TEXT, start_date TEXT, end_date TEXT, resolved TEXT, duration_range TEXT)
  \<close>
  The database engine is SQLite. Its state, as far as this table goes, is the rows of
  \<^verbatim>\<open>past_filters\<close> in row-id order and the table's entry in \<^verbatim>\<open>sqlite_sequence\<close>, the
  largest row id the table has ever held (0 before the first insert). With
  \<^verbatim>\<open>AUTOINCREMENT\<close> an \<^verbatim>\<open>INSERT\<close> that names no id takes one more than the larger
  of that entry and the largest id in the table, and records it in \<^verbatim>\<open>sqlite_sequence\<close>;
  \<^verbatim>\<open>DELETE FROM past_filters\<close> removes the rows and leaves \<^verbatim>\<open>sqlite_sequence\<close>
  alone. Row ids are modelled as natural numbers. The five text values bound to the
  placeholders of the \<^verbatim>\<open>INSERT\<close> are carried as one value of type \<open>'v\<close>.
\<close>

record 'v past_filter =
  row_id :: nat
  saved_values :: 'v

record 'v database =
  past_filters :: "'v past_filter list"
  sqlite_sequence :: nat

definition empty_database :: "'v database" where
  "empty_database = \<lparr>past_filters = [], sqlite_sequence = 0\<rparr>"

definition next_row_id :: "'v database \<Rightarrow> nat" where
  "next_row_id db = Suc (fold max (map row_id (past_filters db)) (sqlite_sequence db))"

definition insert_into :: "'v \<Rightarrow> 'v database \<Rightarrow> 'v database" where
  "insert_into v db =
     \<lparr>past_filters = past_filters db @ [\<lparr>row_id = next_row_id db, saved_values = v\<rparr>],
      sqlite_sequence = next_row_id db\<rparr>"

definition delete_from :: "'v database \<Rightarrow> 'v database" where
  "delete_from db = \<lparr>past_filters = [], sqlite_sequence = sqlite_sequence db\<rparr>"

definition select_all :: "'v database \<Rightarrow> 'v past_filter list" where
  "select_all db = past_filters db"

text \<open>
  \<^verbatim>\<open>
  def handle_past_data(save_click, view_click, delete_click, sentiment, ...):
      ctx = dash.callback_context
      if not ctx.triggered:
          return ""
      button_id = ctx.triggered[0]["prop_id"].split(".")[0]
      if button_id == "save-view-btn":
          cursor.execute("INSERT INTO past_filters (...) VALUES (?, ?, ?, ?, ?)", (...))
          conn.commit()
      elif button_id == "delete-all-btn":
          cursor.execute("DELETE FROM past_filters")
          conn.commit()
      past_data = pd.read_sql("SELECT * FROM past_filters", conn)
      return html.Pre(past_data.to_string())
  \<close>
  The first argument of the model is the button that triggered the callback, \<open>None\<close>
  when nothing did; the result is the new database and what the page shows.
\<close>

datatype 'v children = Blank | Pre "'v past_filter list"

definition handle_past_data ::
  "string option \<Rightarrow> 'v \<Rightarrow> 'v database \<Rightarrow> 'v database \<times> 'v children" where
  "handle_past_data triggered v db =
     (case triggered of
        None \<Rightarrow> (db, Blank)
      | Some button_id \<Rightarrow>
          (let db' = (if button_id = ''save-view-btn'' then insert_into v db
                      else if button_id = ''delete-all-btn'' then delete_from db
                      else db)
           in (db', Pre (select_all db'))))"

text \<open>A session: the callback run on a sequence of triggers, each with its form values.\<close>

fun run :: "(string option \<times> 'v) list \<Rightarrow> 'v database \<Rightarrow> 'v database" where
  "run [] db = db"
| "run ((triggered, v) # evs) db = run evs (fst (handle_past_data triggered v db))"

text \<open>The identifiers a session hands out, in the order of its saves.\<close>

fun issued :: "(string option \<times> 'v) list \<Rightarrow> 'v database \<Rightarrow> nat list" where
  "issued [] db = []"
| "issued ((triggered, v) # evs) db =
     (if triggered = Some ''save-view-btn'' then [next_row_id db] else [])
     @ issued evs (fst (handle_past_data triggered v db))"

text \<open>
  What every database reached from the empty one satisfies: the row ids of the table
  ascend strictly, and none exceeds the entry in \<^verbatim>\<open>sqlite_sequence\<close>.
\<close>

definition consistent :: "'v database \<Rightarrow> bool" where
  "consistent db \<longleftrightarrow>
     sorted_wrt (<) (map row_id (past_filters db))
     \<and> list_all (\<lambda>r. row_id r \<le> sqlite_sequence db) (past_filters db)"

text \<open>The number of saves in a session.\<close>

definition saves :: "(string option \<times> 'v) list \<Rightarrow> nat" where
  "saves evs = length (filter (\<lambda>ev. fst ev = Some ''save-view-btn'') evs)"

text \<open>
  A sample frame: a call rated 5 on day 10, resolved, 120 seconds; a call rated 2 on day
  15, unresolved, 300 seconds.
\<close>

definition january :: "call_record list" where
  "january =
     [\<lparr>satisfaction_rating = Num 5, date = 10, resolved = ''Y'', avg_talk_duration = 120,
       sentiment = ''Positive''\<rparr>,
      \<lparr>satisfaction_rating = Num 2, date = 15, resolved = ''N'', avg_talk_duration = 300,
       sentiment = ''Negative''\<rparr>]"

section \<open>Sentiment classification\<close>

text \<open>
  C3. For every rating \<open>r\<close>, \<open>classify_sentiment r\<close> is Positive iff \<open>r \<ge> 4\<close>,
  Neutral iff \<open>r = 3\<close> and Negative iff \<open>r \<le> 2\<close>, negative numbers included. The
  function is total: whatever the cell holds, a number or the missing value, it returns
  one of the three labels, and as a function it returns the same label for the same
  rating.
\<close>

theorem classify_sentiment_spec:
  "(classify_sentiment (Num r) = ''Positive'' \<longleftrightarrow> r \<ge> 4)
   \<and> (classify_sentiment (Num r) = ''Neutral'' \<longleftrightarrow> r = 3)
   \<and> (classify_sentiment (Num r) = ''Negative'' \<longleftrightarrow> r \<le> 2)
   \<and> classify_sentiment x \<in> {''Positive'', ''Neutral'', ''Negative''}"
  by (auto simp: classify_sentiment_def)

section \<open>Normalization\<close>

text \<open>
  C10. A row whose satisfaction rating is missing (\<^verbatim>\<open>NaN\<close>) is still classified:
  both comparisons are false, so \<open>classify_sentiment\<close> returns Negative. The derived
  sentiment cell is therefore never missing, and whether normalization drops a row does
  not depend on its rating.
\<close>

theorem missing_rating_is_negative_and_kept:
  "classify_sentiment NaN = ''Negative''
   \<and> c_sentiment (coerce_row to_datetime to_timedelta row) = Some (classify_sentiment (raw_rating row))
   \<and> (normalize_row to_datetime to_timedelta (row\<lparr>raw_rating := NaN\<rparr>) = None
        \<longleftrightarrow> normalize_row to_datetime to_timedelta (row\<lparr>raw_rating := x\<rparr>) = None)"
  by (simp add: classify_sentiment_def normalize_row_def coerce_row_def dropna_row_def
      split: option.splits)

text \<open>
  C4. The specification has a row whose satisfaction rating is missing or malformed
  dropped, because the rating blocks classification, and has every retained record carry
  all five fields. The code does neither. A row with a missing rating and its three
  other cells in order is classified Negative and retained, its rating still missing. A
  text rating is not dropped either: classification raises \<^verbatim>\<open>TypeError\<close> and
  loading stops.
\<close>

theorem missing_or_malformed_rating_not_dropped:
  "normalize_row (\<lambda>s. if s = ''2024-01-10'' then Some 1704844800000000000 else None)
                 (\<lambda>s. if s = ''00:02:00'' then Some 120 else None)
     \<lparr>raw_rating = NaN, raw_date = ''2024-01-10'', raw_resolved = Some ''Y'',
      raw_duration = ''00:02:00''\<rparr>
   = Some \<lparr>satisfaction_rating = NaN, date = 1704844800000000000, resolved = ''Y'',
           avg_talk_duration = 120, sentiment = ''Negative''\<rparr>
   \<and> apply_classify [Numeric (Num 5), Text ''n/a'', Numeric (Num 2)] = Inl TypeError"
  by (simp add: normalize_row_def coerce_row_def dropna_row_def classify_sentiment_def
      classify_cell_def)

section \<open>The filter\<close>

lemma sentiment_step_filter:
  "sentiment_step (selected_sentiments c) xs = filter (sentiment_clause c) xs"
  by (cases "selected_sentiments c"; cases "the (selected_sentiments c)")
     (auto simp: sentiment_step_def sentiment_clause_def intro!: filter_cong)

lemma date_step_filter: "date_step (start_date c) (end_date c) xs = filter (date_clause c) xs"
  by (auto simp: date_step_def date_clause_def intro!: filter_cong)

lemma resolved_step_filter:
  "resolved_step (resolved_status c) xs = filter (resolved_clause c) xs"
  by (cases "resolved_status c"; cases "the (resolved_status c)")
     (auto simp: resolved_step_def resolved_clause_def intro!: filter_cong)

lemma duration_step_filter: "duration_step (duration_range c) xs = filter (duration_clause c) xs"
  by (auto simp: duration_step_def duration_clause_def intro!: filter_cong)

lemma filter_records_filter:
  "filter_records c df =
     filter (\<lambda>r. sentiment_clause c r \<and> date_clause c r \<and> resolved_clause c r \<and> duration_clause c r) df"
  unfolding filter_records_def sentiment_step_filter date_step_filter resolved_step_filter
    duration_step_filter
  by (simp add: conj_commute conj_left_commute cong: conj_cong)

text \<open>
  C1. For every frame and every criteria, the filter returns exactly the records that
  satisfy all active clauses: sentiment membership when the selection is non-empty, the
  inclusive date range, resolved equality when a status is supplied, the inclusive
  duration range. The result is the frame filtered by the conjunction of the clauses
  (order and repeated rows kept), so a record is in the subset iff it is in the frame
  and satisfies every clause.
\<close>

theorem filter_records_characterization:
  "filter_records c df =
     filter (\<lambda>r. sentiment_clause c r \<and> date_clause c r \<and> resolved_clause c r \<and> duration_clause c r) df
   \<and> (r \<in> set (filter_records c df) \<longleftrightarrow>
        r \<in> set df \<and> sentiment_clause c r \<and> date_clause c r \<and> resolved_clause c r
        \<and> duration_clause c r)"
  by (simp add: filter_records_filter)

theorem filter_records_characterization_witness:
  "filter_records \<lparr>selected_sentiments = Some [''Negative''], start_date = 1, end_date = 31,
       resolved_status = Some ''N'', duration_range = (0, 400)\<rparr> january
   = [\<lparr>satisfaction_rating = Num 2, date = 15, resolved = ''N'', avg_talk_duration = 300,
       sentiment = ''Negative''\<rparr>]"
  using filter_records_characterization
    [of "\<lparr>selected_sentiments = Some [''Negative''], start_date = 1, end_date = 31,
          resolved_status = Some ''N'', duration_range = (0, 400)\<rparr>" january]
  by (simp add: sentiment_clause_def date_clause_def resolved_clause_def duration_clause_def
      january_def)

text \<open>
  C2. When the sentiment selection is absent or empty, the filter returns what the
  pipeline without the sentiment clause returns, and so as many records: an empty
  selection matches all records, not none.
\<close>

theorem empty_sentiment_selection_is_no_filter:
  assumes "selected_sentiments c = None \<or> selected_sentiments c = Some []"
  shows "filter_records c df = filter_without_sentiment c df
         \<and> length (filter_records c df) = length (filter_without_sentiment c df)"
  using assms by (auto simp: filter_records_def filter_without_sentiment_def sentiment_step_def)

theorem empty_sentiment_selection_is_no_filter_witness:
  "filter_records \<lparr>selected_sentiments = Some [], start_date = 1, end_date = 31,
       resolved_status = None, duration_range = (0, 400)\<rparr> january = january
   \<and> filter_without_sentiment \<lparr>selected_sentiments = Some [], start_date = 1, end_date = 31,
       resolved_status = None, duration_range = (0, 400)\<rparr> january = january"
  using empty_sentiment_selection_is_no_filter
    [of "\<lparr>selected_sentiments = Some [], start_date = 1, end_date = 31,
          resolved_status = None, duration_range = (0, 400)\<rparr>" january]
  by (simp add: filter_without_sentiment_def date_step_def resolved_step_def duration_step_def
      january_def)

text \<open>
  C9. Criteria whose date range has its start after its end, or whose duration range has
  its minimum above its maximum, are not rejected: the filter returns the empty subset,
  since no record satisfies both bounds.
\<close>

theorem inverted_range_gives_empty_subset:
  assumes "end_date c < start_date c \<or> snd (duration_range c) < fst (duration_range c)"
  shows "filter_records c df = []"
  using assms
  by (auto simp: filter_records_filter date_clause_def duration_clause_def filter_empty_conv)

theorem inverted_range_gives_empty_subset_witness:
  "filter_records \<lparr>selected_sentiments = None, start_date = 31, end_date = 1,
       resolved_status = None, duration_range = (0, 400)\<rparr> january = []
   \<and> filter_records \<lparr>selected_sentiments = None, start_date = 1, end_date = 31,
       resolved_status = None, duration_range = (400, 0)\<rparr> january = []"
  using inverted_range_gives_empty_subset
    [of "\<lparr>selected_sentiments = None, start_date = 31, end_date = 1,
          resolved_status = None, duration_range = (0, 400)\<rparr>" january]
    inverted_range_gives_empty_subset
    [of "\<lparr>selected_sentiments = None, start_date = 1, end_date = 31,
          resolved_status = None, duration_range = (400, 0)\<rparr>" january]
  by simp

section \<open>The aggregations\<close>

lemma indicator_sum_list:
  "distinct ks \<Longrightarrow> a \<in> set ks \<Longrightarrow> sum_list (map (\<lambda>k. if a = k then 1 else (0::nat)) ks) = 1"
  by (induction ks) auto

lemma sum_list_group_sizes:
  "distinct ks \<Longrightarrow> key ` set rows \<subseteq> set ks \<Longrightarrow>
   sum_list (map (\<lambda>k. length (filter (\<lambda>r. key r = k) rows)) ks) = length rows"
proof (induction rows)
  case Nil
  then show ?case by simp
next
  case (Cons x xs)
  have split: "(\<lambda>k. length (filter (\<lambda>r. key r = k) (x # xs)))
      = (\<lambda>k. (if key x = k then 1 else 0) + length (filter (\<lambda>r. key r = k) xs))"
    by auto
  have "sum_list (map (\<lambda>k. length (filter (\<lambda>r. key r = k) (x # xs))) ks)
      = sum_list (map (\<lambda>k. if key x = k then 1 else (0::nat)) ks)
        + sum_list (map (\<lambda>k. length (filter (\<lambda>r. key r = k) xs)) ks)"
    unfolding split by (simp add: sum_list_addf)
  also have "\<dots> = 1 + length xs"
    using Cons indicator_sum_list [of ks "key x"] by simp
  finally show ?case by simp
qed

lemma groupby_size_total:
  "sum_list (map snd (groupby_size key rows)) = length rows"
proof -
  have "map snd (groupby_size key rows)
      = map (\<lambda>k. length (filter (\<lambda>r. key r = k) rows)) (sort (remdups (map key rows)))"
    by (simp add: groupby_size_def comp_def)
  then show ?thesis
    using sum_list_group_sizes [of "sort (remdups (map key rows))" key rows] by simp
qed

lemma groupby_size_keys: "fst ` set (groupby_size key rows) = key ` set rows"
  by (auto simp: groupby_size_def image_iff)

lemma groupby_size_entry:
  "(k, n) \<in> set (groupby_size key rows) \<Longrightarrow> n = length (filter (\<lambda>r. key r = k) rows)"
  by (auto simp: groupby_size_def)

text \<open>
  C5. The churn indicator groups only the Negative records of the subset by their
  resolved value: its keys are the resolved values of those records, each count is the
  number of Negative records with that value, and the counts add up to the number of
  Negative records. \<^verbatim>\<open>update_graphs\<close> computes it on the filtered subset.
\<close>

theorem churn_indicator_conservation:
  "sum_list (map snd (churn_df sub)) = length (filter (\<lambda>r. sentiment r = ''Negative'') sub)
   \<and> fst ` set (churn_df sub) = resolved ` {r \<in> set sub. sentiment r = ''Negative''}
   \<and> (\<forall>(k, n) \<in> set (churn_df sub).
         n = length (filter (\<lambda>r. sentiment r = ''Negative'' \<and> resolved r = k) sub))
   \<and> churn_indicator (update_graphs strftime df c) = churn_df (filter_records c df)"
proof -
  have entry: "\<forall>(k, n) \<in> set (churn_df sub).
         n = length (filter (\<lambda>r. sentiment r = ''Negative'' \<and> resolved r = k) sub)"
  proof (clarify)
    fix k n
    assume "(k, n) \<in> set (churn_df sub)"
    then have "n = length (filter (\<lambda>r. resolved r = k) (filter (\<lambda>r. sentiment r = ''Negative'') sub))"
      unfolding churn_df_def by (rule groupby_size_entry)
    then show "n = length (filter (\<lambda>r. sentiment r = ''Negative'' \<and> resolved r = k) sub)"
      by (simp add: conj_commute)
  qed
  show ?thesis
    using entry by (simp add: churn_df_def groupby_size_total groupby_size_keys update_graphs_def Let_def)
qed

theorem churn_indicator_conservation_witness:
  "churn_df january = [(''N'', 1)]
   \<and> sum_list (map snd (churn_df january)) = 1
   \<and> length (filter (\<lambda>r. sentiment r = ''Negative'') january) = 1"
  using churn_indicator_conservation [of january]
  by (simp add: churn_df_def groupby_size_def january_def)

section \<open>The saved-filter log\<close>

lemma fold_max_bounded: "list_all (\<lambda>x. x \<le> a) xs \<Longrightarrow> fold max xs (a::nat) = a"
  by (induction xs) (auto simp: max_absorb2)

lemma next_row_id_consistent: "consistent db \<Longrightarrow> next_row_id db = Suc (sqlite_sequence db)"
  using fold_max_bounded [of "sqlite_sequence db" "map row_id (past_filters db)"]
  by (simp add: consistent_def next_row_id_def list_all_iff)

lemma consistent_empty: "consistent empty_database"
  by (simp add: consistent_def empty_database_def)

lemma consistent_insert: "consistent db \<Longrightarrow> consistent (insert_into v db)"
  by (auto simp: next_row_id_consistent insert_into_def consistent_def sorted_wrt_append list_all_iff
      intro: le_imp_less_Suc le_SucI)

lemma consistent_delete: "consistent db \<Longrightarrow> consistent (delete_from db)"
  by (simp add: consistent_def delete_from_def)

lemma consistent_handle: "consistent db \<Longrightarrow> consistent (fst (handle_past_data t v db))"
  by (simp add: handle_past_data_def consistent_insert consistent_delete Let_def split: option.splits)

lemma sequence_handle:
  "consistent db \<Longrightarrow>
   sqlite_sequence (fst (handle_past_data t v db))
     = (if t = Some ''save-view-btn'' then Suc (sqlite_sequence db) else sqlite_sequence db)"
  by (auto simp: handle_past_data_def insert_into_def delete_from_def next_row_id_consistent Let_def
      split: option.splits)

lemma consistent_run: "consistent db \<Longrightarrow> consistent (run evs db)"
  by (induction evs db rule: run.induct) (simp_all add: consistent_handle)

lemma saves_Nil: "saves [] = 0"
  by (simp add: saves_def)

lemma saves_Cons:
  "saves ((t, v) # evs) = (if t = Some ''save-view-btn'' then Suc (saves evs) else saves evs)"
  by (simp add: saves_def)

lemma sequence_run:
  "consistent db \<Longrightarrow> sqlite_sequence (run evs db) = sqlite_sequence db + saves evs"
proof (induction evs db rule: run.induct)
  case (1 db)
  then show ?case by (simp add: saves_Nil)
next
  case (2 triggered v evs db)
  then show ?case
    by (simp add: consistent_handle sequence_handle saves_Cons)
qed

lemma issued_run:
  "consistent db \<Longrightarrow>
   issued evs db = [Suc (sqlite_sequence db) ..< Suc (sqlite_sequence db + saves evs)]"
proof (induction evs db rule: issued.induct)
  case (1 db)
  then show ?case by (simp add: saves_Nil)
next
  case (2 triggered v evs db)
  let ?db' = "fst (handle_past_data triggered v db)"
  have rest: "issued evs ?db' = [Suc (sqlite_sequence ?db') ..< Suc (sqlite_sequence ?db' + saves evs)]"
    using 2 by (simp add: consistent_handle)
  show ?case
  proof (cases "triggered = Some ''save-view-btn''")
    case True
    have "issued ((triggered, v) # evs) db = Suc (sqlite_sequence db) # issued evs ?db'"
      using True 2(2) by (simp add: next_row_id_consistent)
    also have "\<dots> = Suc (sqlite_sequence db)
                    # [Suc (Suc (sqlite_sequence db)) ..< Suc (Suc (sqlite_sequence db) + saves evs)]"
      using True 2(2) rest by (simp add: sequence_handle)
    also have "\<dots> = [Suc (sqlite_sequence db) ..< Suc (Suc (sqlite_sequence db) + saves evs)]"
      by (simp add: upt_conv_Cons)
    finally show ?thesis using True by (simp add: saves_Cons)
  next
    case False
    with 2(2) rest show ?thesis
      by (simp add: sequence_handle saves_Cons)
  qed
qed

lemma issued_append: "issued (evs @ evs') db = issued evs db @ issued evs' (run evs db)"
  by (induction evs db rule: issued.induct) simp_all

lemma issued_fresh: "issued evs empty_database = [1 ..< Suc (sqlite_sequence (run evs empty_database))]"
  using issued_run [OF consistent_empty, of evs] sequence_run [OF consistent_empty, of evs]
  by (simp add: empty_database_def)

text \<open>
  C6. In the database reached by any session from the empty one, a save appends the
  saved record under the next identifier, and the listing shows it. The identifiers
  handed out so far, deletions or not, are exactly 1, 2, ... in this order, so the new
  one is larger than each of them and than every identifier in the table, and no
  identifier is handed out twice. The listing is in ascending identifier order, before
  and after the save.
\<close>

theorem save_assigns_fresh_identifier:
  assumes "db = run evs empty_database"
    and "handle_past_data (Some ''save-view-btn'') v db = (db', shown)"
  shows "shown = Pre (select_all db')
    \<and> select_all db' = select_all db @ [\<lparr>row_id = Suc (length (issued evs empty_database)), saved_values = v\<rparr>]
    \<and> issued evs empty_database = [1 ..< Suc (length (issued evs empty_database))]
    \<and> issued (evs @ [(Some ''save-view-btn'', v)]) empty_database
        = issued evs empty_database @ [Suc (length (issued evs empty_database))]
    \<and> (\<forall>i \<in> set (issued evs empty_database). i < Suc (length (issued evs empty_database)))
    \<and> (\<forall>r \<in> set (select_all db). row_id r < Suc (length (issued evs empty_database)))
    \<and> sorted_wrt (<) (map row_id (select_all db))
    \<and> sorted_wrt (<) (map row_id (select_all db'))"
proof -
  have inv: "consistent db"
    using assms(1) by (simp add: consistent_run consistent_empty)
  have seq: "sqlite_sequence db = length (issued evs empty_database)"
    using assms(1) issued_fresh [of evs] by simp
  have db': "db' = insert_into v db" and shown: "shown = Pre (select_all db')"
    using assms(2) by (auto simp: handle_past_data_def Let_def)
  have rows: "select_all db' = select_all db @ [\<lparr>row_id = Suc (length (issued evs empty_database)), saved_values = v\<rparr>]"
    using inv seq by (simp add: db' select_all_def insert_into_def next_row_id_consistent)
  have all: "issued evs empty_database = [1 ..< Suc (length (issued evs empty_database))]"
    using issued_fresh [of evs] seq assms(1) by simp
  have ext: "issued (evs @ [(Some ''save-view-btn'', v)]) empty_database
        = issued evs empty_database @ [Suc (length (issued evs empty_database))]"
    using inv seq assms(1) by (simp add: issued_append next_row_id_consistent)
  have older: "\<forall>i \<in> set (issued evs empty_database). i < Suc (length (issued evs empty_database))"
  proof
    fix i
    assume "i \<in> set (issued evs empty_database)"
    then have "i \<in> set [1 ..< Suc (length (issued evs empty_database))]"
      using all by simp
    then show "i < Suc (length (issued evs empty_database))"
      by (simp only: set_upt atLeastLessThan_iff)
  qed
  have stored: "\<forall>r \<in> set (select_all db). row_id r < Suc (length (issued evs empty_database))"
    using inv seq by (auto simp: consistent_def select_all_def list_all_iff intro: le_imp_less_Suc)
  have asc: "sorted_wrt (<) (map row_id (select_all db))"
    using inv by (simp add: consistent_def select_all_def)
  have asc': "sorted_wrt (<) (map row_id (select_all db'))"
    using consistent_insert [OF inv, of v] by (simp add: db' consistent_def select_all_def)
  from shown rows all ext older stored asc asc' show ?thesis
    by blast
qed

theorem save_assigns_fresh_identifier_witness:
  "handle_past_data (Some ''save-view-btn'') (3::nat)
      (run [(Some ''save-view-btn'', 1), (Some ''delete-all-btn'', 0), (Some ''save-view-btn'', 2)]
         empty_database)
     = (\<lparr>past_filters = [\<lparr>row_id = 2, saved_values = 2\<rparr>, \<lparr>row_id = 3, saved_values = 3\<rparr>],
         sqlite_sequence = 3\<rparr>,
        Pre [\<lparr>row_id = 2, saved_values = 2\<rparr>, \<lparr>row_id = 3, saved_values = 3\<rparr>])
   \<and> issued [(Some ''save-view-btn'', 1::nat), (Some ''delete-all-btn'', 0), (Some ''save-view-btn'', 2)]
        empty_database = [1, 2]"
proof -
  let ?evs = "[(Some ''save-view-btn'', 1::nat), (Some ''delete-all-btn'', 0), (Some ''save-view-btn'', 2)]"
  have run: "handle_past_data (Some ''save-view-btn'') (3::nat) (run ?evs empty_database)
     = (\<lparr>past_filters = [\<lparr>row_id = 2, saved_values = 2\<rparr>, \<lparr>row_id = 3, saved_values = 3\<rparr>],
         sqlite_sequence = 3\<rparr>,
        Pre [\<lparr>row_id = 2, saved_values = 2\<rparr>, \<lparr>row_id = 3, saved_values = 3\<rparr>])"
    by (simp add: handle_past_data_def insert_into_def delete_from_def select_all_def
        next_row_id_def empty_database_def)
  have ids: "issued ?evs empty_database = [1, 2]"
    by (simp add: handle_past_data_def insert_into_def delete_from_def select_all_def
        next_row_id_def empty_database_def)
  show ?thesis
    using save_assigns_fresh_identifier [OF refl run] run ids by simp
qed

text \<open>
  C7. In the database reached by any session from the empty one, the delete-all button
  removes every record: the listing it shows, and the one a following view shows, is
  empty. The identifier sequence is not reset: the next save takes one more than the
  number of identifiers handed out before, larger than each of them.
\<close>

theorem clear_all_empties_and_keeps_sequence:
  assumes "db = run evs empty_database"
    and "handle_past_data (Some ''delete-all-btn'') u db = (db1, shown1)"
    and "handle_past_data (Some ''save-view-btn'') w db1 = (db2, shown2)"
  shows "shown1 = Pre []
    \<and> select_all db1 = []
    \<and> handle_past_data (Some ''view-past-btn'') x db1 = (db1, Pre [])
    \<and> sqlite_sequence db1 = sqlite_sequence db
    \<and> shown2 = Pre [\<lparr>row_id = Suc (length (issued evs empty_database)), saved_values = w\<rparr>]
    \<and> (\<forall>i \<in> set (issued evs empty_database). i < Suc (length (issued evs empty_database)))"
proof -
  have inv: "consistent db"
    using assms(1) by (simp add: consistent_run consistent_empty)
  have seq: "sqlite_sequence db = length (issued evs empty_database)"
    using assms(1) issued_fresh [of evs] by simp
  have db1: "db1 = delete_from db" and shown1: "shown1 = Pre (select_all db1)"
    using assms(2) by (auto simp: handle_past_data_def Let_def)
  have empty: "select_all db1 = []"
    by (simp add: db1 delete_from_def select_all_def)
  have keep: "sqlite_sequence db1 = sqlite_sequence db"
    by (simp add: db1 delete_from_def)
  have inv1: "consistent db1"
    using inv by (simp add: db1 consistent_delete)
  have view: "handle_past_data (Some ''view-past-btn'') x db1 = (db1, Pre [])"
    using empty by (simp add: handle_past_data_def Let_def)
  have db2: "db2 = insert_into w db1" and shown2: "shown2 = Pre (select_all db2)"
    using assms(3) by (auto simp: handle_past_data_def Let_def)
  have rows2: "select_all db2 = [\<lparr>row_id = Suc (length (issued evs empty_database)), saved_values = w\<rparr>]"
    using inv1 keep seq empty
    by (simp add: db2 select_all_def insert_into_def next_row_id_consistent)
  have older: "\<forall>i \<in> set (issued evs empty_database). i < Suc (length (issued evs empty_database))"
  proof
    fix i
    assume "i \<in> set (issued evs empty_database)"
    then have "i \<in> set [1 ..< Suc (sqlite_sequence db)]"
      using issued_fresh [of evs] assms(1) by simp
    then show "i < Suc (length (issued evs empty_database))"
      unfolding seq by (simp only: set_upt atLeastLessThan_iff)
  qed
  from shown1 empty view keep shown2 rows2 older show ?thesis
    by simp
qed

theorem clear_all_empties_and_keeps_sequence_witness:
  "handle_past_data (Some ''delete-all-btn'') (0::nat)
      (run [(Some ''save-view-btn'', 1), (Some ''save-view-btn'', 2)] empty_database)
     = (\<lparr>past_filters = [], sqlite_sequence = 2\<rparr>, Pre [])
   \<and> handle_past_data (Some ''save-view-btn'') (3::nat) \<lparr>past_filters = [], sqlite_sequence = 2\<rparr>
     = (\<lparr>past_filters = [\<lparr>row_id = 3, saved_values = 3\<rparr>], sqlite_sequence = 3\<rparr>,
        Pre [\<lparr>row_id = 3, saved_values = 3\<rparr>])
   \<and> issued [(Some ''save-view-btn'', 1::nat), (Some ''save-view-btn'', 2)] empty_database = [1, 2]"
proof -
  let ?evs = "[(Some ''save-view-btn'', 1::nat), (Some ''save-view-btn'', 2)]"
  have del: "handle_past_data (Some ''delete-all-btn'') (0::nat) (run ?evs empty_database)
     = (\<lparr>past_filters = [], sqlite_sequence = 2\<rparr>, Pre [])"
    by (simp add: handle_past_data_def insert_into_def delete_from_def select_all_def
        next_row_id_def empty_database_def)
  have sav: "handle_past_data (Some ''save-view-btn'') (3::nat) \<lparr>past_filters = [], sqlite_sequence = 2\<rparr>
     = (\<lparr>past_filters = [\<lparr>row_id = 3, saved_values = 3\<rparr>], sqlite_sequence = 3\<rparr>,
        Pre [\<lparr>row_id = 3, saved_values = 3\<rparr>])"
    by (simp add: handle_past_data_def insert_into_def select_all_def next_row_id_def)
  have ids: "issued ?evs empty_database = [1, 2]"
    by (simp add: handle_past_data_def insert_into_def delete_from_def select_all_def
        next_row_id_def empty_database_def)
  show ?thesis
    using clear_all_empties_and_keeps_sequence [OF refl del sav, of 0] del sav ids by simp
qed

end
